theory Spec2Isabelle
  imports Main "HOL-Library.Word"
begin

unbundle bit_operations_syntax

section \<open>Go values: bytes, strings, failures\<close>

text \<open>
  A Go \<open>[]byte\<close> is a list of 8-bit words, a Go \<open>string\<close> is an Isabelle \<open>string\<close>
  (a list of 8-bit characters, so \<open>length\<close> is Go's \<open>len\<close>), and the conversions
  \<open>[]byte(s)\<close> and \<open>string(b)\<close> are written out.  Go's \<open>int\<close> is the 64-bit
  \<open>int\<close> of the usual targets and is modelled as \<open>int\<close>; the conversions to
  \<open>uint32\<close> and \<open>uint16\<close> that the writers apply are the truncating \<open>word_of_int\<close>.
  \<open>uint32\<close> and \<open>uint64\<close> are words.  A \<open>float32\<close> is carried as its IEEE-754 bit
  pattern: the modelled code only moves floats between memory and the wire.
\<close>

type_synonym byte = "8 word"
type_synonym uint16 = "16 word"
type_synonym uint32 = "32 word"
type_synonym uint64 = "64 word"

datatype float32 = Float32frombits uint32

definition bytes_of :: "string \<Rightarrow> byte list" where
  "bytes_of s = map (\<lambda>c. of_nat (of_char c)) s"

definition string_of :: "byte list \<Rightarrow> string" where
  "string_of b = map (\<lambda>x. char_of (unat x)) b"

text \<open>
  A call either returns normally, returns a Go \<open>error\<close> (its message), or panics.
  The run-time panics the modelled code can raise are told apart.
\<close>

datatype panic =
    SliceBoundsOutOfRange
  | AssignmentToNilMap
  | InterfaceConversion
  | NilDereference

datatype failure = Panic panic | Error string

definition and_then :: "failure + 'a \<Rightarrow> ('a \<Rightarrow> failure + 'b) \<Rightarrow> failure + 'b" where
  "and_then m f = (case m of Inl e \<Rightarrow> Inl e | Inr a \<Rightarrow> f a)"

text \<open>
  \<open>s[lo:hi]\<close> on a slice whose capacity equals its length (true of every buffer the
  parser is given: \<open>make([]byte, size)\<close> and tails of it).
\<close>

definition slice :: "'a list \<Rightarrow> nat \<Rightarrow> nat \<Rightarrow> failure + 'a list" where
  "slice s lo hi =
     (if lo \<le> hi \<and> hi \<le> length s then Inr (take (hi - lo) (drop lo s))
      else Inl (Panic SliceBoundsOutOfRange))"

subsection \<open>encoding/binary, big endian\<close>

fun be_bytes :: "nat \<Rightarrow> nat \<Rightarrow> byte list" where
  "be_bytes 0 v = []"
| "be_bytes (Suc k) v = be_bytes k (v div 256) @ [of_nat v]"

definition be_nat :: "byte list \<Rightarrow> nat" where
  "be_nat b = foldl (\<lambda>a x. a * 256 + unat x) 0 b"

definition PutUint16 :: "uint16 \<Rightarrow> byte list" where
  "PutUint16 v = be_bytes 2 (unat v)"

definition PutUint32 :: "uint32 \<Rightarrow> byte list" where
  "PutUint32 v = be_bytes 4 (unat v)"

definition PutUint64 :: "uint64 \<Rightarrow> byte list" where
  "PutUint64 v = be_bytes 8 (unat v)"

text \<open>The readers are only ever applied to slices of exactly 2, 4 and 8 bytes.\<close>

definition Uint16 :: "byte list \<Rightarrow> uint16" where
  "Uint16 b = of_nat (be_nat b)"

definition Uint32 :: "byte list \<Rightarrow> uint32" where
  "Uint32 b = of_nat (be_nat b)"

definition Uint64 :: "byte list \<Rightarrow> uint64" where
  "Uint64 b = of_nat (be_nat b)"

subsection \<open>The request writers (sphinx.go, writeXxxToBytes)\<close>

definition writeFloat32ToBytes :: "byte list \<Rightarrow> float32 \<Rightarrow> byte list" where
  "writeFloat32ToBytes bs f = (case f of Float32frombits w \<Rightarrow> bs @ PutUint32 w)"

definition writeInt16ToBytes :: "byte list \<Rightarrow> int \<Rightarrow> byte list" where
  "writeInt16ToBytes bs i = bs @ PutUint16 (word_of_int i)"

definition writeInt32ToBytes :: "byte list \<Rightarrow> int \<Rightarrow> byte list" where
  "writeInt32ToBytes bs i = bs @ PutUint32 (word_of_int i)"

definition writeInt64ToBytes :: "byte list \<Rightarrow> uint64 \<Rightarrow> byte list" where
  "writeInt64ToBytes bs ui = bs @ PutUint64 ui"

definition writeLenStrToBytes :: "byte list \<Rightarrow> string \<Rightarrow> byte list" where
  "writeLenStrToBytes bs s = (bs @ PutUint32 (of_nat (length s))) @ bytes_of s"

section \<open>Protocol constants\<close>

named_theorems sphinx_consts \<open>values of the protocol constants\<close>

definition SEARCHD_OK :: int where [sphinx_consts]: "SEARCHD_OK = 0"
definition SEARCHD_ERROR :: int where [sphinx_consts]: "SEARCHD_ERROR = 1"
definition SEARCHD_RETRY :: int where [sphinx_consts]: "SEARCHD_RETRY = 2"
definition SEARCHD_WARNING :: int where [sphinx_consts]: "SEARCHD_WARNING = 3"

definition SPH_ATTR_NONE :: int where [sphinx_consts]: "SPH_ATTR_NONE = 0"
definition SPH_ATTR_INTEGER :: int where [sphinx_consts]: "SPH_ATTR_INTEGER = 1"
definition SPH_ATTR_TIMESTAMP :: int where [sphinx_consts]: "SPH_ATTR_TIMESTAMP = 2"
definition SPH_ATTR_ORDINAL :: int where [sphinx_consts]: "SPH_ATTR_ORDINAL = 3"
definition SPH_ATTR_BOOL :: int where [sphinx_consts]: "SPH_ATTR_BOOL = 4"
definition SPH_ATTR_FLOAT :: int where [sphinx_consts]: "SPH_ATTR_FLOAT = 5"
definition SPH_ATTR_BIGINT :: int where [sphinx_consts]: "SPH_ATTR_BIGINT = 6"
definition SPH_ATTR_STRING :: int where [sphinx_consts]: "SPH_ATTR_STRING = 7"
definition SPH_ATTR_MULTI :: int where [sphinx_consts]: "SPH_ATTR_MULTI = 0x40000001"
definition SPH_ATTR_MULTI64 :: int where [sphinx_consts]: "SPH_ATTR_MULTI64 = 0x40000002"

section \<open>The response cursor (sphinx.go, byteParser)\<close>

record byteParser =
  stream :: "byte list"
  p :: nat

type_synonym 'a parser = "byteParser \<Rightarrow> failure + ('a \<times> byteParser)"

definition byteParser_Uint32 :: "uint32 parser" where
  "byteParser_Uint32 bp =
     and_then (slice (stream bp) (p bp) (p bp + 4))
       (\<lambda>b. Inr (Uint32 b, bp\<lparr>p := p bp + 4\<rparr>))"

definition byteParser_Int32 :: "int parser" where
  "byteParser_Int32 bp =
     and_then (slice (stream bp) (p bp) (p bp + 4))
       (\<lambda>b. Inr (uint (Uint32 b), bp\<lparr>p := p bp + 4\<rparr>))"

definition byteParser_Uint64 :: "uint64 parser" where
  "byteParser_Uint64 bp =
     and_then (slice (stream bp) (p bp) (p bp + 8))
       (\<lambda>b. Inr (Uint64 b, bp\<lparr>p := p bp + 8\<rparr>))"

text \<open>
  \<open>Float32\<close> slices four bytes, advances, and hands them to \<open>binary.Read\<close>, which cannot
  fail on a four-byte buffer: its error return is never taken.
\<close>

definition byteParser_Float32 :: "float32 parser" where
  "byteParser_Float32 bp =
     and_then (slice (stream bp) (p bp) (p bp + 4))
       (\<lambda>b. Inr (Float32frombits (Uint32 b), bp\<lparr>p := p bp + 4\<rparr>))"

definition byteParser_String :: "string parser" where
  "byteParser_String bp =
     and_then (byteParser_Int32 bp) (\<lambda>(slen, bp1).
       if slen > 0 then
         and_then (slice (stream bp1) (p bp1) (p bp1 + nat slen))
           (\<lambda>b. Inr (string_of b, bp1\<lparr>p := p bp1 + nat slen\<rparr>))
       else Inr ([], bp1))"

text \<open>
  The loops of the decoder all have the shape
  \<open>xs := make([]T, n); for k := 0; k < n; k++ { xs[k] = body }\<close>
  with \<open>n\<close> read from the stream (so never negative).  Memory is not modelled:
  \<open>make\<close> is taken to succeed for every \<open>n\<close>.
\<close>

fun fill :: "nat \<Rightarrow> 'a parser \<Rightarrow> 'a list parser" where
  "fill 0 body bp = Inr ([], bp)"
| "fill (Suc n) body bp =
     and_then (body bp) (\<lambda>(x, bp1).
       and_then (fill n body bp1) (\<lambda>(xs, bp2). Inr (x # xs, bp2)))"

section \<open>Results (sphinx.go, Match, WordInfo, Result)\<close>

datatype AttrValue =
    AUint32 uint32
  | AUint64 uint64
  | AFloat32 float32
  | AString string
  | AMulti "uint32 list"
  | AMulti64 "uint64 list"

record Match =
  DocId :: uint64
  Weight :: int
  AttrValues :: "AttrValue list"

record WordInfo =
  Word :: string
  Docs :: int
  Hits :: int

text \<open>
  \<open>Time\<close> holds the milliseconds read from the wire; the source stores
  \<open>float32(msecs) / 1000.0\<close>.  \<open>Error\<close> is \<open>None\<close> for Go's \<open>nil\<close>.
\<close>

record Result =
  Fields :: "string list"
  AttrNames :: "string list"
  AttrTypes :: "int list"
  Matches :: "Match list"
  Total :: int
  TotalFound :: int
  Time :: uint32
  Words :: "WordInfo list"
  Warning :: string
  Error_r :: "string option"
  Status :: int

definition new_Result :: Result where
  "new_Result = \<lparr>Fields = [], AttrNames = [], AttrTypes = [], Matches = [], Total = 0,
     TotalFound = 0, Time = 0, Words = [], Warning = [], Error_r = None, Status = -1\<rparr>"

section \<open>Decoding a search response (sphinx.go, RunQueries, lines 769 to 872)\<close>

text \<open>The two inner loops over multi-valued attributes, lines 831 to 845.\<close>

definition read_multi64_val :: "uint64 parser" where
  "read_multi64_val bp =
     and_then (byteParser_Uint32 bp) (\<lambda>(v, bp1).
       and_then (byteParser_Uint32 bp1) (\<lambda>(_, bp2). Inr (ucast v, bp2)))"

text \<open>The \<open>switch attrType\<close> of lines 819 to 848.\<close>

definition read_attr :: "int \<Rightarrow> AttrValue parser" where
  "read_attr attrType bp =
    (if attrType = SPH_ATTR_BIGINT then
       and_then (byteParser_Uint64 bp) (\<lambda>(v, bp1). Inr (AUint64 v, bp1))
     else if attrType = SPH_ATTR_FLOAT then
       and_then (byteParser_Float32 bp) (\<lambda>(f, bp1). Inr (AFloat32 f, bp1))
     else if attrType = SPH_ATTR_STRING then
       and_then (byteParser_String bp) (\<lambda>(s, bp1). Inr (AString s, bp1))
     else if attrType = SPH_ATTR_MULTI then
       and_then (byteParser_Int32 bp) (\<lambda>(nvals, bp1).
         and_then (fill (nat nvals) byteParser_Uint32 bp1)
           (\<lambda>(vals, bp2). Inr (AMulti vals, bp2)))
     else if attrType = SPH_ATTR_MULTI64 then
       and_then (byteParser_Int32 bp) (\<lambda>(nvals, bp1).
         and_then (fill (nat (nvals div 2)) read_multi64_val bp1)
           (\<lambda>(vals, bp2). Inr (AMulti64 vals, bp2)))
     else
       and_then (byteParser_Uint32 bp) (\<lambda>(v, bp1). Inr (AUint32 v, bp1)))"

text \<open>The loop over \<open>result.AttrTypes\<close> of one match, line 817.\<close>

fun read_attrs :: "int list \<Rightarrow> AttrValue list parser" where
  "read_attrs [] bp = Inr ([], bp)"
| "read_attrs (t # ts) bp =
     and_then (read_attr t bp) (\<lambda>(v, bp1).
       and_then (read_attrs ts bp1) (\<lambda>(vs, bp2). Inr (v # vs, bp2)))"

text \<open>One match, lines 807 to 850.\<close>

definition read_match :: "int \<Rightarrow> int list \<Rightarrow> Match parser" where
  "read_match id64 attrTypes bp =
     and_then (if id64 = 1 then byteParser_Uint64 bp
               else and_then (byteParser_Uint32 bp) (\<lambda>(d, bp1). Inr (ucast d, bp1)))
       (\<lambda>(docId, bp1).
     and_then (byteParser_Int32 bp1) (\<lambda>(weight, bp2).
     and_then (read_attrs attrTypes bp2) (\<lambda>(vals, bp3).
       Inr (\<lparr>DocId = docId, Weight = weight, AttrValues = vals\<rparr>, bp3))))"

definition read_attr_decl :: "(string \<times> int) parser" where
  "read_attr_decl bp =
     and_then (byteParser_String bp) (\<lambda>(name, bp1).
       and_then (byteParser_Int32 bp1) (\<lambda>(ty, bp2). Inr ((name, ty), bp2)))"

definition read_word :: "WordInfo parser" where
  "read_word bp =
     and_then (byteParser_String bp) (\<lambda>(w, bp1).
     and_then (byteParser_Int32 bp1) (\<lambda>(d, bp2).
     and_then (byteParser_Int32 bp2) (\<lambda>(h, bp3).
       Inr (\<lparr>Word = w, Docs = d, Hits = h\<rparr>, bp3))))"

text \<open>Lines 787 to 866: what is read for a result once its status lets decoding go on.\<close>

definition read_body :: "Result \<Rightarrow> Result parser" where
  "read_body result bp =
     and_then (byteParser_Int32 bp) (\<lambda>(nfields, bp).
     and_then (fill (nat nfields) byteParser_String bp) (\<lambda>(fields, bp).
     and_then (byteParser_Int32 bp) (\<lambda>(nattrs, bp).
     and_then (fill (nat nattrs) read_attr_decl bp) (\<lambda>(attrs, bp).
     and_then (byteParser_Int32 bp) (\<lambda>(count, bp).
     and_then (byteParser_Int32 bp) (\<lambda>(id64, bp).
     and_then (fill (nat count) (read_match id64 (map snd attrs)) bp) (\<lambda>(matches, bp).
     and_then (byteParser_Int32 bp) (\<lambda>(total, bp).
     and_then (byteParser_Int32 bp) (\<lambda>(totalFound, bp).
     and_then (byteParser_Uint32 bp) (\<lambda>(msecs, bp).
     and_then (byteParser_Int32 bp) (\<lambda>(nwords, bp).
     and_then (fill (nat nwords) read_word bp) (\<lambda>(words, bp).
       Inr (result\<lparr>Fields := fields, AttrNames := map fst attrs,
              AttrTypes := map snd attrs, Matches := matches, Total := total,
              TotalFound := totalFound, Time := msecs, Words := words\<rparr>, bp)))))))))))))"

text \<open>One turn of the loop over the batch, lines 772 to 868.\<close>

definition read_result :: "Result parser" where
  "read_result bp =
     and_then (byteParser_Int32 bp) (\<lambda>(status, bp1).
       let result = new_Result\<lparr>Status := status\<rparr> in
       if status \<noteq> SEARCHD_OK then
         and_then (byteParser_String bp1) (\<lambda>(message, bp2).
           if status = SEARCHD_WARNING then read_body (result\<lparr>Warning := message\<rparr>) bp2
           else Inr (result\<lparr>Error_r := Some message\<rparr>, bp2))
       else read_body result bp1)"

text \<open>The whole loop: \<open>nreqs\<close> results, appended in order.\<close>

definition read_results :: "nat \<Rightarrow> Result list parser" where
  "read_results nreqs bp = fill nreqs read_result bp"


section \<open>Decimal text (fmt's \<open>%d\<close>, strconv.FormatInt and strconv.FormatUint, base 10)\<close>

definition digit_char :: "nat \<Rightarrow> char" where
  "digit_char d = ''0123456789'' ! d"

fun FormatUint :: "nat \<Rightarrow> string" where
  "FormatUint n = (if n < 10 then [digit_char n] else FormatUint (n div 10) @ [digit_char (n mod 10)])"

declare FormatUint.simps [simp del]

definition FormatInt :: "int \<Rightarrow> string" where
  "FormatInt i = (if i < 0 then CHR ''-'' # FormatUint (nat (- i)) else FormatUint (nat i))"

section \<open>Client state (sphinx.go, filter, override, Options, Client)\<close>

definition SPH_FILTER_VALUES :: int where [sphinx_consts]: "SPH_FILTER_VALUES = 0"
definition SPH_FILTER_RANGE :: int where [sphinx_consts]: "SPH_FILTER_RANGE = 1"
definition SPH_FILTER_FLOATRANGE :: int where [sphinx_consts]: "SPH_FILTER_FLOATRANGE = 2"

definition SPH_MATCH_ALL :: int where [sphinx_consts]: "SPH_MATCH_ALL = 0"
definition SPH_MATCH_EXTENDED :: int where [sphinx_consts]: "SPH_MATCH_EXTENDED = 4"
definition SPH_MATCH_EXTENDED2 :: int where [sphinx_consts]: "SPH_MATCH_EXTENDED2 = 6"
definition SPH_RANK_PROXIMITY_BM25 :: int where [sphinx_consts]: "SPH_RANK_PROXIMITY_BM25 = 0"
definition SPH_RANK_EXPR :: int where [sphinx_consts]: "SPH_RANK_EXPR = 8"
definition SPH_SORT_RELEVANCE :: int where [sphinx_consts]: "SPH_SORT_RELEVANCE = 0"
definition SPH_GROUPBY_DAY :: int where [sphinx_consts]: "SPH_GROUPBY_DAY = 0"

definition SEARCHD_COMMAND_SEARCH :: int where [sphinx_consts]: "SEARCHD_COMMAND_SEARCH = 0"
definition SEARCHD_COMMAND_EXCERPT :: int where [sphinx_consts]: "SEARCHD_COMMAND_EXCERPT = 1"
definition VER_MAJOR_PROTO :: int where [sphinx_consts]: "VER_MAJOR_PROTO = 0x1"
definition VER_COMMAND_SEARCH :: int where [sphinx_consts]: "VER_COMMAND_SEARCH = 0x119"
definition VER_COMMAND_EXCERPT :: int where [sphinx_consts]: "VER_COMMAND_EXCERPT = 0x104"

record Filter =
  attr :: string
  filterType :: int
  filter_values :: "uint64 list"
  umin :: uint64
  umax :: uint64
  fmin :: float32
  fmax :: float32
  exclude :: bool

text \<open>
  An \<open>interface{}\<close> value, by its dynamic type: the three types that \<open>AddQuery\<close> asserts,
  and two that it does not.
\<close>

datatype iface =
    IInt int
  | IFloat32 float32
  | IUint64 uint64
  | IString string
  | IBool bool

text \<open>
  A Go map is an association list with distinct keys, in the order in which this run
  of the program ranges over it.  Only \<open>overrides\<close> is ever written by key, so only there
  is the \<open>nil\<close> map (which panics on a write) told apart, as \<open>None\<close>.
\<close>

record override =
  attrName :: string
  attrType :: int
  override_values :: "(uint64 \<times> iface) list"

fun map_put :: "'k \<Rightarrow> 'v \<Rightarrow> ('k \<times> 'v) list \<Rightarrow> ('k \<times> 'v) list" where
  "map_put k v [] = [(k, v)]"
| "map_put k v ((k', v') # m) = (if k = k' then (k, v) # m else (k', v') # map_put k v m)"

record Options =
  Host :: string
  Port :: int
  Socket :: string
  SqlPort :: int
  SqlSocket :: string
  RetryCount :: int
  RetryDelay :: int
  Timeout :: int
  Offset :: int
  Limit :: int
  MaxMatches :: int
  Cutoff :: int
  MaxQueryTime :: int
  Select :: string
  MatchMode :: int
  RankMode :: int
  RankExpr :: string
  SortMode :: int
  SortBy :: string
  MinId :: uint64
  MaxId :: uint64
  LatitudeAttr :: string
  LongitudeAttr :: string
  Latitude :: float32
  Longitude :: float32
  GroupBy :: string
  GroupFunc :: int
  GroupSort :: string
  GroupDistinct :: string

text \<open>
  The connection, as far as the client can tell: the bytes that have arrived and are not
  read yet.  What the network does is a parameter, \<open>Net\<close>: \<open>dial\<close> answers
  \<open>net.DialTimeout network address\<close> with an error text or with the bytes the daemon
  sends on connecting, \<open>set_deadline\<close> is the error text of \<open>SetDeadline\<close> if it fails, and
  \<open>written\<close> answers \<open>conn.Write\<close> with the count of bytes written and an error text,
  or with the bytes the daemon sends back.  \<open>io.ReadFull\<close> fails when fewer bytes than asked for have arrived.
\<close>

record Conn =
  inbox :: "byte list"

record Net =
  dial :: "string \<Rightarrow> string \<Rightarrow> string + byte list"
  set_deadline :: "string option"
  written :: "byte list \<Rightarrow> (nat \<times> string) + byte list"

datatype net_event = Dial string string | Write "byte list"

text \<open>
  \<open>options\<close> is the embedded \<open>*Options\<close>; \<open>err\<close> is \<open>None\<close> for \<open>nil\<close>; \<open>conn\<close> is \<open>None\<close> for
  \<open>nil\<close>.  \<open>trace\<close> is not a field of the source: it records, in order, every dial and
  every write the client has made.
\<close>

record Client =
  options :: Options
  conn :: "Conn option"
  warning :: string
  err :: "string option"
  connerror :: bool
  weights :: "int list"
  filters :: "Filter list"
  reqs :: "byte list list"
  indexWeights :: "(string \<times> int) list"
  fieldWeights :: "(string \<times> int) list"
  overrides :: "(string \<times> override) list option"
  trace :: "net_event list"

definition DefaultOptions :: Options where
  "DefaultOptions = \<lparr>Host = ''localhost'', Port = 9312, Socket = [], SqlPort = 9306,
     SqlSocket = [], RetryCount = 0, RetryDelay = 0, Timeout = 1000, Offset = 0, Limit = 20,
     MaxMatches = 1000, Cutoff = 0, MaxQueryTime = 0, Select = ''*'',
     MatchMode = SPH_MATCH_EXTENDED, RankMode = SPH_RANK_PROXIMITY_BM25, RankExpr = [],
     SortMode = SPH_SORT_RELEVANCE, SortBy = [], MinId = 0, MaxId = 0, LatitudeAttr = [],
     LongitudeAttr = [], Latitude = Float32frombits 0, Longitude = Float32frombits 0,
     GroupBy = [], GroupFunc = SPH_GROUPBY_DAY, GroupSort = ''@group desc'',
     GroupDistinct = []\<rparr>"

text \<open>
  \<open>NewClient(opts...)\<close>: the variadic argument is \<open>None\<close> when absent.  Every other
  field has Go's zero value; the three maps are \<open>nil\<close>.
\<close>

definition NewClient :: "Options option \<Rightarrow> Client" where
  "NewClient given =
     \<lparr>options = (case given of Some x \<Rightarrow> x | None \<Rightarrow> DefaultOptions), conn = None, warning = [],
      err = None, connerror = False, weights = [], filters = [], reqs = [],
      indexWeights = [], fieldWeights = [], overrides = None, trace = []\<rparr>"

definition GetLastError :: "Client \<Rightarrow> string option" where
  "GetLastError sc = err sc"

section \<open>Configuration setters\<close>

definition SetLimits :: "int \<Rightarrow> int \<Rightarrow> int \<Rightarrow> int \<Rightarrow> Client \<Rightarrow> Client" where
  "SetLimits offset limit maxMatches cutoff sc =
    (if offset < 0 then
       sc\<lparr>err := Some (''SetLimits > offset must not be negative: '' @ FormatInt offset)\<rparr>
     else if limit \<le> 0 then
       sc\<lparr>err := Some (''SetLimits > limit must be positive: '' @ FormatInt limit)\<rparr>
     else if maxMatches \<le> 0 then
       sc\<lparr>err := Some (''SetLimits > maxMatches must be positive: '' @ FormatInt maxMatches)\<rparr>
     else if cutoff < 0 then
       sc\<lparr>err := Some (''SetLimits > cutoff must not be negative: '' @ FormatInt cutoff)\<rparr>
     else
       let o1 = (options sc)\<lparr>Offset := offset, Limit := limit\<rparr>;
           o2 = (if maxMatches > 0 then o1\<lparr>MaxMatches := maxMatches\<rparr> else o1);
           o3 = (if cutoff > 0 then o2\<lparr>Cutoff := cutoff\<rparr> else o2)
       in sc\<lparr>options := o3\<rparr>)"

definition SetOverride :: "string \<Rightarrow> int \<Rightarrow> (uint64 \<times> iface) list \<Rightarrow> Client \<Rightarrow> failure + Client" where
  "SetOverride attrName' attrType' values sc =
    (if attrName' = [] then Inr (sc\<lparr>err := Some ''SetOverride > attrName is empty!''\<rparr>)
     else if (attrType' < 1 \<or> attrType' > SPH_ATTR_STRING) \<and> attrType' \<noteq> SPH_ATTR_MULTI
               \<and> SPH_ATTR_MULTI \<noteq> SPH_ATTR_MULTI64 then
       Inr (sc\<lparr>err := Some (''SetOverride > invalid attrType: '' @ FormatInt attrType')\<rparr>)
     else
       (case overrides sc of
          None \<Rightarrow> Inl (Panic AssignmentToNilMap)
        | Some m \<Rightarrow>
            Inr (sc\<lparr>overrides := Some (map_put attrName'
                   \<lparr>attrName = attrName', attrType = attrType', override_values = values\<rparr> m)\<rparr>)))"

definition SetIDRange :: "uint64 \<Rightarrow> uint64 \<Rightarrow> Client \<Rightarrow> Client" where
  "SetIDRange min' max' sc =
    (if min' > max' then
       sc\<lparr>err := Some (''SetIDRange > min > max! min:'' @ FormatUint (unat min')
                        @ ''  max:'' @ FormatUint (unat max'))\<rparr>
     else sc\<lparr>options := (options sc)\<lparr>MinId := min', MaxId := max'\<rparr>\<rparr>)"

definition SetFilter :: "string \<Rightarrow> uint64 list \<Rightarrow> bool \<Rightarrow> Client \<Rightarrow> Client" where
  "SetFilter attr' values exclude' sc =
    (if attr' = [] then sc\<lparr>err := Some ''SetFilter > attribute name is empty!''\<rparr>
     else if length values = 0 then sc\<lparr>err := Some ''SetFilter > values is empty!''\<rparr>
     else sc\<lparr>filters := filters sc @
            [\<lparr>attr = attr', filterType = SPH_FILTER_VALUES, filter_values = values,
              umin = 0, umax = 0, fmin = Float32frombits 0, fmax = Float32frombits 0,
              exclude = exclude'\<rparr>]\<rparr>)"

definition SetFilterRange :: "string \<Rightarrow> uint64 \<Rightarrow> uint64 \<Rightarrow> bool \<Rightarrow> Client \<Rightarrow> Client" where
  "SetFilterRange attr' umin' umax' exclude' sc =
    (if attr' = [] then sc\<lparr>err := Some ''SetFilterRange > attribute name is empty!''\<rparr>
     else if umin' > umax' then
       sc\<lparr>err := Some (''SetFilterRange > min > max! umin:'' @ FormatUint (unat umin')
                        @ ''  umax:'' @ FormatUint (unat umax'))\<rparr>
     else sc\<lparr>filters := filters sc @
            [\<lparr>attr = attr', filterType = SPH_FILTER_RANGE, filter_values = [],
              umin = umin', umax = umax', fmin = Float32frombits 0, fmax = Float32frombits 0,
              exclude = exclude'\<rparr>]\<rparr>)"


section \<open>Encoding a query (sphinx.go, AddQuery)\<close>

text \<open>The body of the loop over \<open>sc.filters\<close>, lines 657 to 680.\<close>

definition write_filter :: "byte list \<Rightarrow> Filter \<Rightarrow> byte list" where
  "write_filter req f =
    (let req = writeLenStrToBytes req (attr f);
         req = writeInt32ToBytes req (filterType f);
         req = (if filterType f = SPH_FILTER_VALUES then
                  foldl writeInt64ToBytes
                    (writeInt32ToBytes req (int (length (filter_values f)))) (filter_values f)
                else if filterType f = SPH_FILTER_RANGE then
                  writeInt64ToBytes (writeInt64ToBytes req (umin f)) (umax f)
                else if filterType f = SPH_FILTER_FLOATRANGE then
                  writeFloat32ToBytes (writeFloat32ToBytes req (fmin f)) (fmax f)
                else req)
     in if exclude f then writeInt32ToBytes req 1 else writeInt32ToBytes req 0)"

text \<open>The body of the loops over \<open>sc.indexWeights\<close> and \<open>sc.fieldWeights\<close>.\<close>

definition write_weight :: "byte list \<Rightarrow> string \<times> int \<Rightarrow> byte list" where
  "write_weight req kv = writeInt32ToBytes (writeLenStrToBytes req (fst kv)) (snd kv)"

text \<open>
  The loop over \<open>override.values\<close>, lines 726 to 738.  The type assertions \<open>v.(int)\<close>,
  \<open>v.(float32)\<close> and \<open>v.(uint64)\<close> are of the one-result form, which panics on another
  dynamic type.
\<close>

fun write_override_values :: "int \<Rightarrow> (uint64 \<times> iface) list \<Rightarrow> byte list \<Rightarrow> failure + byte list" where
  "write_override_values ty [] req = Inr req"
| "write_override_values ty ((docid, v) # rest) req =
    (let req = writeInt64ToBytes req docid in
     if ty = SPH_ATTR_INTEGER then
       (case v of IInt i \<Rightarrow> write_override_values ty rest (writeInt32ToBytes req i)
        | _ \<Rightarrow> Inl (Panic InterfaceConversion))
     else if ty = SPH_ATTR_FLOAT then
       (case v of IFloat32 f \<Rightarrow> write_override_values ty rest (writeFloat32ToBytes req f)
        | _ \<Rightarrow> Inl (Panic InterfaceConversion))
     else if ty = SPH_ATTR_BIGINT then
       (case v of IUint64 u \<Rightarrow> write_override_values ty rest (writeInt64ToBytes req u)
        | _ \<Rightarrow> Inl (Panic InterfaceConversion))
     else Inl (Error ''AddQuery > attr value is not int/float32/uint64.''))"

text \<open>The loop over \<open>sc.overrides\<close>, lines 722 to 739.\<close>

fun write_overrides :: "(string \<times> override) list \<Rightarrow> byte list \<Rightarrow> failure + byte list" where
  "write_overrides [] req = Inr req"
| "write_overrides ((k, ov) # rest) req =
    (let req = writeLenStrToBytes req (attrName ov);
         req = writeInt32ToBytes req (attrType ov);
         req = writeInt32ToBytes req (int (length (override_values ov)))
     in and_then (write_override_values (attrType ov) (override_values ov) req)
          (write_overrides rest))"

definition map_entries :: "('k \<times> 'v) list option \<Rightarrow> ('k \<times> 'v) list" where
  "map_entries m = (case m of None \<Rightarrow> [] | Some kvs \<Rightarrow> kvs)"

text \<open>Lines 634 to 718: everything written before the overrides.\<close>

definition query_head :: "string \<Rightarrow> string \<Rightarrow> string \<Rightarrow> Client \<Rightarrow> byte list" where
  "query_head query index comment sc =
    (let c = options sc;
         req = writeInt32ToBytes [] (Offset c);
         req = writeInt32ToBytes req (Limit c);
         req = writeInt32ToBytes req (MatchMode c);
         req = writeInt32ToBytes req (RankMode c);
         req = (if RankMode c = SPH_RANK_EXPR then writeLenStrToBytes req (RankExpr c) else req);
         req = writeInt32ToBytes req (SortMode c);
         req = writeLenStrToBytes req (SortBy c);
         req = writeLenStrToBytes req query;
         req = writeInt32ToBytes req (int (length (weights sc)));
         req = foldl writeInt32ToBytes req (weights sc);
         req = writeLenStrToBytes req index;
         req = writeInt32ToBytes req 1;
         req = writeInt64ToBytes req (MinId c);
         req = writeInt64ToBytes req (MaxId c);
         req = writeInt32ToBytes req (int (length (filters sc)));
         req = foldl write_filter req (filters sc);
         req = writeInt32ToBytes req (GroupFunc c);
         req = writeLenStrToBytes req (GroupBy c);
         req = writeInt32ToBytes req (MaxMatches c);
         req = writeLenStrToBytes req (GroupSort c);
         req = writeInt32ToBytes req (Cutoff c);
         req = writeInt32ToBytes req (RetryCount c);
         req = writeInt32ToBytes req (RetryDelay c);
         req = writeLenStrToBytes req (GroupDistinct c);
         req = (if LatitudeAttr c = [] \<or> LongitudeAttr c = [] then writeInt32ToBytes req 0
                else
                  let req = writeInt32ToBytes req 1;
                      req = writeLenStrToBytes req (LatitudeAttr c);
                      req = writeLenStrToBytes req (LongitudeAttr c);
                      req = writeFloat32ToBytes req (Latitude c)
                  in writeFloat32ToBytes req (Longitude c));
         req = writeInt32ToBytes req (int (length (indexWeights sc)));
         req = foldl write_weight req (indexWeights sc);
         req = writeInt32ToBytes req (MaxQueryTime c);
         req = writeInt32ToBytes req (int (length (fieldWeights sc)));
         req = foldl write_weight req (fieldWeights sc)
     in writeLenStrToBytes req comment)"

text \<open>
  \<open>AddQuery\<close>.  On failure the source returns the position \<open>-1\<close> beside its error; the
  model returns the failure alone.  The request is a local until the last statement
  appends it, so a failure leaves the client as it was.
\<close>

definition AddQuery :: "string \<Rightarrow> string \<Rightarrow> string \<Rightarrow> Client \<Rightarrow> (failure + int) \<times> Client" where
  "AddQuery query index comment sc =
    (let req = query_head query index comment sc;
         req = writeInt32ToBytes req (int (length (map_entries (overrides sc))))
     in case write_overrides (map_entries (overrides sc)) req of
          Inl e \<Rightarrow> (Inl e, sc)
        | Inr req \<Rightarrow>
            let req = writeLenStrToBytes req (Select (options sc));
                sc = sc\<lparr>reqs := reqs sc @ [req]\<rparr>
            in (Inr (int (length (reqs sc)) - 1), sc))"

section \<open>The connection (sphinx.go, connect and doRequest)\<close>

text \<open>
  \<open>io.ReadFull(conn, buf)\<close> for a buffer of \<open>n\<close> bytes: the bytes, or the count of bytes
  that were there.  Its error prints as \<open>EOF\<close> when nothing was read.
\<close>

definition ReadFull :: "nat \<Rightarrow> Conn \<Rightarrow> (nat + byte list) \<times> Conn" where
  "ReadFull n c =
    (if n \<le> length (inbox c) then (Inr (take n (inbox c)), c\<lparr>inbox := drop n (inbox c)\<rparr>)
     else (Inl (length (inbox c)), c\<lparr>inbox := []\<rparr>))"

definition ReadFull_error :: "nat \<Rightarrow> string" where
  "ReadFull_error k = (if k = 0 then ''EOF'' else ''unexpected EOF'')"

text \<open>Lines 1225 to 1252 of \<open>connect\<close>: the handshake on a fresh connection.\<close>

definition handshake :: "Net \<Rightarrow> Conn \<Rightarrow> Client \<Rightarrow> string option \<times> Client" where
  "handshake net c sc =
    (case set_deadline net of
       Some e \<Rightarrow> (Some (''connect() conn.SetDeadline() > '' @ e), sc\<lparr>connerror := True\<rparr>)
     | None \<Rightarrow>
        (case ReadFull 4 c of
           (Inl k, c1) \<Rightarrow>
             (Some (''connect() io.ReadFull() > '' @ ReadFull_error k),
              sc\<lparr>conn := Some c1, connerror := True\<rparr>)
         | (Inr header, c1) \<Rightarrow>
             let version = Uint32 header in
             if version < 1 then
               (Some (''connect() > expected searchd protocol version 1+, got version ''
                        @ FormatUint (unat version)),
                sc\<lparr>conn := Some c1\<rparr>)
             else
               let pkt = writeInt32ToBytes [] VER_MAJOR_PROTO;
                   sc = sc\<lparr>conn := Some c1, trace := trace sc @ [Write pkt]\<rparr>
               in case written net pkt of
                    Inl (i, e) \<Rightarrow>
                      (Some (''connect() conn.Write() > '' @ FormatUint i @ '' bytes, '' @ e),
                       sc\<lparr>connerror := True\<rparr>)
                  | Inr reply \<Rightarrow> (None, sc\<lparr>conn := Some (c1\<lparr>inbox := inbox c1 @ reply\<rparr>)\<rparr>)))"

text \<open>
  \<open>connect\<close>.  The message of its last branch is formatted from the client itself and
  is cut after its fixed part.
\<close>

definition connect :: "Net \<Rightarrow> Client \<Rightarrow> string option \<times> Client" where
  "connect net sc =
    (if conn sc \<noteq> None then (None, sc)
     else
       let sc = sc\<lparr>connerror := False\<rparr> in
       if Socket (options sc) \<noteq> [] \<or> Port (options sc) > 0 then
         let network = (if Socket (options sc) \<noteq> [] then ''unix'' else ''tcp'');
             address = (if Socket (options sc) \<noteq> [] then Socket (options sc)
                        else Host (options sc) @ '':'' @ FormatInt (Port (options sc)));
             sc = sc\<lparr>trace := trace sc @ [Dial network address]\<rparr>
         in case dial net network address of
              Inl e \<Rightarrow>
                (Some (''connect() net.DialTimeout('' @ FormatInt (Timeout (options sc))
                         @ '' ms) > '' @ e),
                 sc\<lparr>connerror := True\<rparr>)
            | Inr greeting \<Rightarrow>
                handshake net \<lparr>inbox = greeting\<rparr> (sc\<lparr>conn := Some \<lparr>inbox = greeting\<rparr>\<rparr>)
       else (Some ''connect() > No valid socket or port!'', sc))"

text \<open>
  \<open>doRequest\<close> runs under a deferred \<open>recover\<close>: a panic in its body becomes the error
  it returns.  The recovered value is printed with \<open>%#v\<close>; only the fixed part of that
  message is kept.
\<close>

definition recovered :: "panic \<Rightarrow> failure" where
  "recovered x = Error ''doRequest panic > ''"

text \<open>The \<open>switch status\<close> of lines 1331 to 1345; \<open>4+wlen\<close> is a \<open>uint32\<close> sum.\<close>

definition response_body :: "uint16 \<Rightarrow> uint16 \<Rightarrow> byte list \<Rightarrow> Client \<Rightarrow> (failure + byte list) \<times> Client" where
  "response_body status ver res sc =
    (if uint status = SEARCHD_OK then (Inr res, sc)
     else if uint status = SEARCHD_WARNING then
       (case slice res 0 4 of
          Inl e \<Rightarrow> (Inl (recovered SliceBoundsOutOfRange), sc)
        | Inr b \<Rightarrow>
            let wlen = Uint32 b in
            (case slice res 4 (unat (4 + wlen)) of
               Inl e \<Rightarrow> (Inl (recovered SliceBoundsOutOfRange), sc)
             | Inr w \<Rightarrow>
                 let sc = sc\<lparr>warning := string_of w\<rparr> in
                 (case slice res (unat (4 + wlen)) (length res) of
                    Inl e \<Rightarrow> (Inl (recovered SliceBoundsOutOfRange), sc)
                  | Inr r \<Rightarrow> (Inr r, sc))))
     else if uint status = SEARCHD_ERROR \<or> uint status = SEARCHD_RETRY then
       (case slice res 0 4 of
          Inl e \<Rightarrow> (Inl (recovered SliceBoundsOutOfRange), sc)
        | Inr b \<Rightarrow>
            let wlen = Uint32 b in
            (case slice res 4 (unat (4 + wlen)) of
               Inl e \<Rightarrow> (Inl (recovered SliceBoundsOutOfRange), sc)
             | Inr w \<Rightarrow> (Inl (Error (''doRequest > SEARCHD_ERROR: '' @ string_of w)), sc)))
     else
       (Inl (Error (''doRequest > unknown status code (status='' @ FormatUint (unat status)
                      @ ''), ver: '' @ FormatUint (unat ver))), sc))"

definition doRequest :: "Net \<Rightarrow> int \<Rightarrow> int \<Rightarrow> byte list \<Rightarrow> Client \<Rightarrow> (failure + byte list) \<times> Client" where
  "doRequest net command version req sc =
    (case connect net sc of
       (Some e, sc) \<Rightarrow> (Inl (Error e), sc)
     | (None, sc) \<Rightarrow>
        (case conn sc of
           None \<Rightarrow> (Inl (recovered NilDereference), sc)
         | Some c \<Rightarrow>
            let cmdVerLen = writeInt16ToBytes [] command;
                cmdVerLen = writeInt16ToBytes cmdVerLen version;
                cmdVerLen = writeInt32ToBytes cmdVerLen (int (length req));
                req = cmdVerLen @ req;
                sc = sc\<lparr>trace := trace sc @ [Write req]\<rparr>
            in case written net req of
                 Inl (i, e) \<Rightarrow> (Inl (Error (''conn.Write error: '' @ e)), sc\<lparr>connerror := True\<rparr>)
               | Inr reply \<Rightarrow>
                  (case ReadFull 8 (c\<lparr>inbox := inbox c @ reply\<rparr>) of
                     (Inl i, c1) \<Rightarrow>
                       (Inl (Error (''doRequest > just read '' @ FormatUint i
                                      @ '' bytes into header!'')),
                        sc\<lparr>conn := Some c1, connerror := True\<rparr>)
                   | (Inr header, c1) \<Rightarrow>
                      let status = Uint16 (take 2 header);
                          ver = Uint16 (take 2 (drop 2 header));
                          size = Uint32 (take 4 (drop 4 header))
                      in if size \<le> 0 then
                           (Inl (Error (''doRequest > invalid response packet size (len=''
                                          @ FormatUint (unat size) @ '').'')),
                            sc\<lparr>conn := Some c1\<rparr>)
                         else
                           (case ReadFull (unat size) c1 of
                              (Inl i, c2) \<Rightarrow>
                                (Inl (Error (''doRequest > just read '' @ FormatUint i
                                       @ '' bytes into res (size='' @ FormatUint (unat size)
                                       @ '').'')),
                                 sc\<lparr>conn := Some c2, connerror := True\<rparr>)
                            | (Inr res, c2) \<Rightarrow>
                                response_body status ver res (sc\<lparr>conn := Some c2\<rparr>)))))"

section \<open>Running the batch (sphinx.go, RunQueries and Query)\<close>

definition RunQueries :: "Net \<Rightarrow> Client \<Rightarrow> (failure + Result list) \<times> Client" where
  "RunQueries net sc =
    (if length (reqs sc) = 0 then
       (Inl (Error ''RunQueries > No queries defined, issue AddQuery() first.''), sc)
     else
       let nreqs = length (reqs sc);
           allReqs = writeInt32ToBytes [] 0;
           allReqs = writeInt32ToBytes allReqs (int nreqs);
           allReqs = foldl (@) allReqs (reqs sc)
       in case doRequest net SEARCHD_COMMAND_SEARCH VER_COMMAND_SEARCH allReqs sc of
            (Inl e, sc) \<Rightarrow> (Inl e, sc)
          | (Inr response, sc) \<Rightarrow>
             (case read_results nreqs \<lparr>stream = response, p = 0\<rparr> of
                Inl e \<Rightarrow> (Inl e, sc)
              | Inr (results, bp) \<Rightarrow> (Inr results, sc\<lparr>reqs := []\<rparr>)))"

text \<open>
  \<open>Query\<close>.  The message of the empty-results branch is formatted from the client and is
  cut after its fixed part.
\<close>

definition Query :: "Net \<Rightarrow> string \<Rightarrow> string \<Rightarrow> string \<Rightarrow> Client \<Rightarrow> (failure + Result) \<times> Client" where
  "Query net query index comment sc =
    (let index = (if index = [] then ''*'' else index);
         sc = sc\<lparr>reqs := []\<rparr>
     in case AddQuery query index comment sc of
          (Inl e, sc) \<Rightarrow> (Inl e, sc)
        | (Inr i, sc) \<Rightarrow>
           (case RunQueries net sc of
              (Inl e, sc) \<Rightarrow> (Inl e, sc)
            | (Inr results, sc) \<Rightarrow>
               (case results of
                  [] \<Rightarrow> (Inl (Error ''Query > Empty results!''), sc)
                | result # rest \<Rightarrow>
                   (case Error_r result of
                      Some m \<Rightarrow> (Inl (Error (''Query > Result error: '' @ m)), sc)
                    | None \<Rightarrow> (Inr result, sc\<lparr>warning := Warning result\<rparr>)))))"


section \<open>Excerpts (sphinx.go, ExcerptsOpts and BuildExcerpts)\<close>

record ExcerptsOpts =
  BeforeMatch :: string
  AfterMatch :: string
  ChunkSeparator :: string
  Limit :: int
  Around :: int
  ExactPhrase :: bool
  SinglePassage :: bool
  UseBoundaries :: bool
  WeightOrder :: bool
  QueryMode :: bool
  ForceAllWords :: bool
  LimitPassages :: int
  LimitWords :: int
  StartPassageId :: int
  LoadFiles :: bool
  LoadFilesScattered :: bool
  HtmlStripMode :: string
  AllowEmpty :: bool
  PassageBoundary :: string
  EmitZones :: bool

text \<open>
  Lines 931 to 952: the defaults.  Each of the seven statements tests and sets one field
  of its own, so together they are one update of the seven fields.
\<close>

definition excerpt_defaults :: "ExcerptsOpts \<Rightarrow> ExcerptsOpts" where
  "excerpt_defaults opts = opts
    \<lparr>BeforeMatch := (if BeforeMatch opts = [] then ''<b>'' else BeforeMatch opts),
     AfterMatch := (if AfterMatch opts = [] then ''</b>'' else AfterMatch opts),
     ChunkSeparator := (if ChunkSeparator opts = [] then ''...'' else ChunkSeparator opts),
     HtmlStripMode := (if HtmlStripMode opts = [] then ''index'' else HtmlStripMode opts),
     ExcerptsOpts.Limit := (if ExcerptsOpts.Limit opts = 0 then 256 else ExcerptsOpts.Limit opts),
     Around := (if Around opts = 0 then 5 else Around opts),
     StartPassageId := (if StartPassageId opts = 0 then 1 else StartPassageId opts)\<rparr>"

text \<open>Lines 957 to 984: the flags word.\<close>

definition excerpt_flags :: "ExcerptsOpts \<Rightarrow> int" where
  "excerpt_flags opts =
    (let iFlags = 1;
         iFlags = (if ExactPhrase opts \<noteq> False then iFlags OR 2 else iFlags);
         iFlags = (if SinglePassage opts \<noteq> False then iFlags OR 4 else iFlags);
         iFlags = (if UseBoundaries opts \<noteq> False then iFlags OR 8 else iFlags);
         iFlags = (if WeightOrder opts \<noteq> False then iFlags OR 16 else iFlags);
         iFlags = (if QueryMode opts \<noteq> False then iFlags OR 32 else iFlags);
         iFlags = (if ForceAllWords opts \<noteq> False then iFlags OR 64 else iFlags);
         iFlags = (if LoadFiles opts \<noteq> False then iFlags OR 128 else iFlags);
         iFlags = (if AllowEmpty opts \<noteq> False then iFlags OR 256 else iFlags);
         iFlags = (if EmitZones opts \<noteq> False then iFlags OR 256 else iFlags)
     in iFlags)"

text \<open>Lines 954 to 1004: the request, from options that have their defaults already.\<close>

definition excerpt_request :: "string list \<Rightarrow> string \<Rightarrow> string \<Rightarrow> ExcerptsOpts \<Rightarrow> byte list" where
  "excerpt_request docs index words opts =
    (let req = writeInt32ToBytes [] 0;
         req = writeInt32ToBytes req (excerpt_flags opts);
         req = writeLenStrToBytes req index;
         req = writeLenStrToBytes req words;
         req = writeLenStrToBytes req (BeforeMatch opts);
         req = writeLenStrToBytes req (AfterMatch opts);
         req = writeLenStrToBytes req (ChunkSeparator opts);
         req = writeInt32ToBytes req (ExcerptsOpts.Limit opts);
         req = writeInt32ToBytes req (Around opts);
         req = writeInt32ToBytes req (LimitPassages opts);
         req = writeInt32ToBytes req (LimitWords opts);
         req = writeInt32ToBytes req (StartPassageId opts);
         req = writeLenStrToBytes req (HtmlStripMode opts);
         req = writeLenStrToBytes req (PassageBoundary opts);
         req = writeInt32ToBytes req (int (length docs))
     in foldl writeLenStrToBytes req docs)"

definition BuildExcerpts :: "Net \<Rightarrow> string list \<Rightarrow> string \<Rightarrow> string \<Rightarrow> ExcerptsOpts \<Rightarrow> Client \<Rightarrow> (failure + string list) \<times> Client" where
  "BuildExcerpts net docs index words opts sc =
    (if length docs = 0 then (Inl (Error ''BuildExcerpts > Have no documents to process!''), sc)
     else if index = [] then (Inl (Error ''BuildExcerpts > index name is empty!''), sc)
     else if words = [] then (Inl (Error ''BuildExcerpts > Have no words to highlight!''), sc)
     else if PassageBoundary opts \<noteq> [] \<and> PassageBoundary opts \<noteq> ''sentence''
               \<and> PassageBoundary opts \<noteq> ''paragraph'' \<and> PassageBoundary opts \<noteq> ''zone'' then
       (Inl (Error (''BuildExcerpts > PassageBoundary allowed values are ''
                     @ [CHR 0x27] @ ''sentence'' @ [CHR 0x27] @ '', ''
                     @ [CHR 0x27] @ ''paragraph'' @ [CHR 0x27] @ '', and ''
                     @ [CHR 0x27] @ ''zone'' @ [CHR 0x27] @ '', now is: ''
                     @ PassageBoundary opts)), sc)
     else
       let req = excerpt_request docs index words (excerpt_defaults opts) in
       case doRequest net SEARCHD_COMMAND_EXCERPT VER_COMMAND_EXCERPT req sc of
         (Inl e, sc) \<Rightarrow> (Inl e, sc)
       | (Inr response, sc) \<Rightarrow>
          (case fill (length docs) byteParser_String \<lparr>stream = response, p = 0\<rparr> of
             Inl e \<Rightarrow> (Inl e, sc)
           | Inr (resDocs, bp) \<Rightarrow> (Inr resDocs, sc)))"

section \<open>Field literals for the SQL bridge (sphinxql.go)\<close>














section \<open>Layouts and readings used to state the properties\<close>


text \<open>
  The search body as the specification words it: the client marker 0, the count of
  requests, then the requests in queue order; and the packet that carries it under
  the envelope of command code, command version and body length.
\<close>

definition search_body :: "byte list list \<Rightarrow> byte list" where
  "search_body rs = PutUint32 0 @ PutUint32 (of_nat (length rs)) @ concat rs"

definition search_packet :: "byte list list \<Rightarrow> byte list" where
  "search_packet rs =
     PutUint16 0 @ PutUint16 0x119 @ PutUint32 (of_nat (length (search_body rs))) @ search_body rs"








section \<open>Concrete clients, daemons and responses\<close>

text \<open>A client configured for a Unix socket, and the same client with one query queued.\<close>

definition unix_client :: Client where
  "unix_client = NewClient (Some (DefaultOptions\<lparr>Socket := ''/tmp/searchd.sock''\<rparr>))"

definition queued_client :: Client where
  "queued_client = snd (AddQuery ''test'' ''*'' [] unix_client)"

text \<open>
  One result with status OK and nothing in it: no fields, no attributes, no matches,
  totals 0, time 0, no words.
\<close>

definition empty_result_wire :: "byte list" where
  "empty_result_wire = concat (replicate 9 (PutUint32 0))"

text \<open>
  A daemon that greets with protocol version 1, takes the client's version, and
  answers every command with status OK and one empty result.
\<close>

definition net_ok :: Net where
  "net_ok = \<lparr>dial = (\<lambda>network address. Inr (PutUint32 1)), set_deadline = None,
     written = (\<lambda>b. if length b = 4 then Inr []
                     else Inr (PutUint16 0 @ PutUint16 0 @ PutUint32 36 @ empty_result_wire))\<rparr>"

text \<open>
  A daemon whose answer declares five matches and ends there: status OK, no fields,
  no attributes, match count 5, 32-bit ids, and not one byte of the matches.
\<close>

definition truncated_wire :: "byte list" where
  "truncated_wire = PutUint32 0 @ PutUint32 0 @ PutUint32 0 @ PutUint32 5 @ PutUint32 0"

definition net_truncated :: Net where
  "net_truncated = \<lparr>dial = (\<lambda>network address. Inr (PutUint32 1)), set_deadline = None,
     written = (\<lambda>b. if length b = 4 then Inr []
                     else Inr (PutUint16 0 @ PutUint16 0 @ PutUint32 20 @ truncated_wire))\<rparr>"

text \<open>
  A client holding one override that declares \<open>SPH_ATTR_INTEGER\<close> and carries a string.
\<close>

definition mismatched_client :: Client where
  "mismatched_client = unix_client\<lparr>overrides := Some [(''group_id'',
      \<lparr>attrName = ''group_id'', attrType = SPH_ATTR_INTEGER,
       override_values = [(1, IString ''five'')]\<rparr>)]\<rparr>"

text \<open>
  A batch of three results: an empty OK result, a result with status ERROR and the
  message \<open>no such index\<close>, and another empty OK result.
\<close>

definition batch_wire :: "byte list" where
  "batch_wire = empty_result_wire
     @ PutUint32 1 @ PutUint32 13 @ bytes_of ''no such index''
     @ empty_result_wire"

section \<open>Basic facts about the byte codecs and the cursor\<close>

lemma and_then_Inl [simp]: "and_then (Inl e) f = Inl e"
  by (simp add: and_then_def)

lemma and_then_Inr [simp]: "and_then (Inr a) f = f a"
  by (simp add: and_then_def)

lemma be_nat_snoc: "be_nat (xs @ [b]) = be_nat xs * 256 + unat b"
  by (simp add: be_nat_def)

lemma length_be_bytes [simp]: "length (be_bytes k v) = k"
  by (induction k arbitrary: v) simp_all

lemma be_nat_be_bytes: "be_nat (be_bytes k v) = v mod 256 ^ k"
proof (induction k arbitrary: v)
  case 0
  show ?case by (simp add: be_nat_def)
next
  case (Suc k)
  have "be_nat (be_bytes (Suc k) v) = (v div 256 mod 256 ^ k) * 256 + v mod 256"
    by (simp add: be_nat_snoc Suc unat_of_nat)
  also have "\<dots> = v mod 256 ^ Suc k"
    by (simp add: mod_mult2_eq)
  finally show ?case .
qed

lemma Uint16_PutUint16 [simp]: "Uint16 (PutUint16 w) = w"
proof -
  have "unat w < 2 ^ 16" using unsigned_less [of w] by simp
  then have "unat w mod 256 ^ 2 = unat w" by simp
  then show ?thesis by (simp add: Uint16_def PutUint16_def be_nat_be_bytes)
qed

lemma Uint32_PutUint32 [simp]: "Uint32 (PutUint32 w) = w"
proof -
  have "unat w < 2 ^ 32" using unsigned_less [of w] by simp
  then have "unat w mod 256 ^ 4 = unat w" by simp
  then show ?thesis by (simp add: Uint32_def PutUint32_def be_nat_be_bytes)
qed

lemma Uint64_PutUint64 [simp]: "Uint64 (PutUint64 w) = w"
proof -
  have "unat w < 2 ^ 64" using unsigned_less [of w] by simp
  then have "unat w mod 256 ^ 8 = unat w" by simp
  then show ?thesis by (simp add: Uint64_def PutUint64_def be_nat_be_bytes)
qed

lemma length_PutUint16 [simp]: "length (PutUint16 w) = 2"
  by (simp add: PutUint16_def)

lemma length_PutUint32 [simp]: "length (PutUint32 w) = 4"
  by (simp add: PutUint32_def)

lemma length_PutUint64 [simp]: "length (PutUint64 w) = 8"
  by (simp add: PutUint64_def)

lemma PutUint32_nonempty: "PutUint32 w \<noteq> []"
proof
  assume "PutUint32 w = []"
  then have "length (PutUint32 w) = length ([] :: byte list)" by (rule arg_cong)
  then show False by simp
qed

lemma be_bytes_2: "be_bytes 2 v = [of_nat (v div 256), of_nat v]"
proof -
  have "be_bytes (Suc (Suc 0)) v = [of_nat (v div 256), of_nat v]" by simp
  then show ?thesis by (simp only: numeral_2_eq_2)
qed

lemma be_bytes_4:
  "be_bytes 4 v = [of_nat (v div 16777216), of_nat (v div 65536), of_nat (v div 256), of_nat v]"
proof -
  have "be_bytes (Suc (Suc (Suc (Suc 0)))) v =
      [of_nat (v div 16777216), of_nat (v div 65536), of_nat (v div 256), of_nat v]"
    by (simp add: div_mult2_eq [symmetric])
  moreover have "(4::nat) = Suc (Suc (Suc (Suc 0)))" by simp
  ultimately show ?thesis by (simp only:)
qed

lemma PutUint16_bytes: "PutUint16 w = [of_nat (unat w div 256), of_nat (unat w)]"
  by (simp add: PutUint16_def be_bytes_2)

lemma PutUint32_bytes:
  "PutUint32 w = [of_nat (unat w div 16777216), of_nat (unat w div 65536),
     of_nat (unat w div 256), of_nat (unat w)]"
  by (simp add: PutUint32_def be_bytes_4)

lemma slice_prefix:
  assumes "drop lo s = xs @ rest" and "xs \<noteq> []"
  shows "slice s lo (lo + length xs) = Inr xs"
proof -
  have "length s - lo = length xs + length rest"
    using assms(1) by (metis length_drop length_append)
  moreover have "0 < length xs" using assms(2) by simp
  ultimately have "lo + length xs \<le> length s" by linarith
  then show ?thesis using assms(1) by (simp add: slice_def)
qed

lemma drop_past_prefix:
  assumes "drop lo s = xs @ rest"
  shows "drop (lo + length xs) s = rest"
proof -
  have "drop (lo + length xs) s = drop (length xs) (drop lo s)"
    by (simp add: add.commute)
  then show ?thesis using assms by simp
qed


lemma Int32_at:
  assumes "drop (p bp) (stream bp) = PutUint32 w @ rest"
  shows "byteParser_Int32 bp = Inr (uint w, bp\<lparr>p := p bp + 4\<rparr>)"
proof -
  have "slice (stream bp) (p bp) (p bp + length (PutUint32 w)) = Inr (PutUint32 w)"
    using assms by (rule slice_prefix) (rule PutUint32_nonempty)
  then show ?thesis by (simp add: byteParser_Int32_def)
qed

lemma rest_after_Uint32:
  assumes "drop (p bp) (stream bp) = PutUint32 w @ rest"
  shows "drop (p (bp\<lparr>p := p bp + 4\<rparr>)) (stream (bp\<lparr>p := p bp + 4\<rparr>)) = rest"
  using drop_past_prefix [OF assms] by simp

section \<open>Multi-valued 64-bit attributes\<close>





section \<open>Configuration setters that reject their input\<close>

text \<open>
  C5.  \<open>SetLimits\<close> with a negative offset records a configuration error and leaves
  \<open>Offset\<close>, \<open>Limit\<close>, \<open>MaxMatches\<close> and \<open>Cutoff\<close> as they were; \<open>SetFilterRange\<close> with
  \<open>umin > umax\<close> records a configuration error and leaves the filter list as it was.
\<close>

theorem invalid_limits_and_range_rejected:
  "(offset < 0 \<longrightarrow>
      err (SetLimits offset limit maxMatches cutoff sc)
        = Some (''SetLimits > offset must not be negative: '' @ FormatInt offset)
      \<and> Offset (options (SetLimits offset limit maxMatches cutoff sc)) = Offset (options sc)
      \<and> Options.Limit (options (SetLimits offset limit maxMatches cutoff sc))
          = Options.Limit (options sc)
      \<and> MaxMatches (options (SetLimits offset limit maxMatches cutoff sc))
          = MaxMatches (options sc)
      \<and> Cutoff (options (SetLimits offset limit maxMatches cutoff sc)) = Cutoff (options sc))
   \<and> (umin' > umax' \<longrightarrow>
      err (SetFilterRange attr' umin' umax' exclude' sc) \<noteq> None
      \<and> filters (SetFilterRange attr' umin' umax' exclude' sc) = filters sc)"
  by (simp add: SetLimits_def SetFilterRange_def)

theorem invalid_limits_and_range_witness:
  "err (SetLimits (-1) 20 1000 0 (NewClient None))
      = Some ''SetLimits > offset must not be negative: -1''
   \<and> Offset (options (SetLimits (-1) 20 1000 0 (NewClient None))) = 0
   \<and> Options.Limit (options (SetLimits (-1) 20 1000 0 (NewClient None))) = 20
   \<and> MaxMatches (options (SetLimits (-1) 20 1000 0 (NewClient None))) = 1000
   \<and> Cutoff (options (SetLimits (-1) 20 1000 0 (NewClient None))) = 0
   \<and> err (SetFilterRange ''group_id'' 5 3 False (NewClient None)) \<noteq> None
   \<and> filters (SetFilterRange ''group_id'' 5 3 False (NewClient None)) = []"
proof -
  have h1: "(-1::int) < 0" by simp
  have h2: "(5::uint64) > 3" by simp
  have f: "FormatInt (-1) = ''-1''" by code_simp
  have o: "Offset (options (NewClient None)) = 0" "Options.Limit (options (NewClient None)) = 20"
    "MaxMatches (options (NewClient None)) = 1000" "Cutoff (options (NewClient None)) = 0"
    "filters (NewClient None) = []"
    by (simp_all add: NewClient_def DefaultOptions_def)
  show ?thesis
    using invalid_limits_and_range_rejected
      [of "-1" 20 1000 0 "NewClient None" 3 5 "''group_id''" False] h1 h2
    by (simp only: f o append.simps) simp
qed

text \<open>
  C9.  On a client fresh from \<open>NewClient\<close> the override map is \<open>nil\<close>, so \<open>SetOverride\<close>
  with a name and a valid attribute type panics on the assignment instead of storing
  the override; with \<open>SPH_ATTR_MULTI64\<close> it does not get that far, because the type check
  rejects it.
\<close>

theorem SetOverride_fresh_client_panics:
  "SetOverride ''group_id'' SPH_ATTR_INTEGER [(1, IInt 5)] (NewClient None)
     = Inl (Panic AssignmentToNilMap)
   \<and> SetOverride ''tags'' SPH_ATTR_MULTI64 [] (NewClient None)
     = Inr ((NewClient None)
         \<lparr>err := Some (''SetOverride > invalid attrType: '' @ FormatInt SPH_ATTR_MULTI64)\<rparr>)"
  by (simp add: SetOverride_def NewClient_def sphinx_consts)

lemma SetOverride_NewClient_valid_type:
  "attrName' \<noteq> [] \<Longrightarrow> (1 \<le> attrType' \<and> attrType' \<le> SPH_ATTR_STRING) \<or> attrType' = SPH_ATTR_MULTI \<Longrightarrow>
   SetOverride attrName' attrType' vals (NewClient given) = Inl (Panic AssignmentToNilMap)"
  by (auto simp add: SetOverride_def NewClient_def sphinx_consts)

section \<open>Overrides in \<open>AddQuery\<close>\<close>

text \<open>
  C6.  An override that declares \<open>SPH_ATTR_INTEGER\<close> and carries a string makes \<open>AddQuery\<close>
  panic on the type assertion; it returns no error.  The queue is as it was.
\<close>

theorem AddQuery_override_mismatch_panics:
  "AddQuery ''test'' ''*'' [] mismatched_client = (Inl (Panic InterfaceConversion), mismatched_client)"
  by (simp add: AddQuery_def mismatched_client_def map_entries_def Let_def sphinx_consts)

lemma AddQuery_failure_keeps_client:
  "fst (AddQuery q i c sc) = Inl e \<Longrightarrow> snd (AddQuery q i c sc) = sc"
  by (simp add: AddQuery_def Let_def split: sum.splits)

section \<open>The flags of \<open>BuildExcerpts\<close>\<close>

text \<open>
  C10.  \<open>AllowEmpty\<close> and \<open>EmitZones\<close> set the same bit, 256: a call with only the one set
  and a call with only the other set send the same request and have the same outcome.
\<close>

theorem BuildExcerpts_AllowEmpty_EmitZones_same:
  "BuildExcerpts net docs index words (opts\<lparr>AllowEmpty := True, EmitZones := False\<rparr>) sc
     = BuildExcerpts net docs index words (opts\<lparr>AllowEmpty := False, EmitZones := True\<rparr>) sc"
proof -
  have f: "excerpt_flags (excerpt_defaults (opts\<lparr>AllowEmpty := True, EmitZones := False\<rparr>))
     = excerpt_flags (excerpt_defaults (opts\<lparr>AllowEmpty := False, EmitZones := True\<rparr>))"
    by (simp add: excerpt_flags_def excerpt_defaults_def)
  have r: "excerpt_request docs index words
        (excerpt_defaults (opts\<lparr>AllowEmpty := True, EmitZones := False\<rparr>))
     = excerpt_request docs index words
        (excerpt_defaults (opts\<lparr>AllowEmpty := False, EmitZones := True\<rparr>))"
    unfolding excerpt_request_def f by (simp add: excerpt_defaults_def)
  show ?thesis unfolding BuildExcerpts_def r by simp
qed

section \<open>A response shorter than it declares\<close>

text \<open>
  Whatever the bytes are, the decoder fails in one way only: a slice out of bounds.
  It has no path that returns an error.
\<close>

lemma slice_fails_by_panic: "slice s lo hi = Inl e \<Longrightarrow> e = Panic SliceBoundsOutOfRange"
  by (simp add: slice_def split: if_splits)

lemma and_then_fails: "and_then m f = Inl e \<Longrightarrow> m = Inl e \<or> (\<exists>a. m = Inr a \<and> f a = Inl e)"
  by (cases m) auto

lemma Uint32_fails_by_panic: "byteParser_Uint32 bp = Inl e \<Longrightarrow> e = Panic SliceBoundsOutOfRange"
  by (auto simp: byteParser_Uint32_def dest!: and_then_fails slice_fails_by_panic)

lemma Int32_fails_by_panic: "byteParser_Int32 bp = Inl e \<Longrightarrow> e = Panic SliceBoundsOutOfRange"
  by (auto simp: byteParser_Int32_def dest!: and_then_fails slice_fails_by_panic)

lemma Uint64_fails_by_panic: "byteParser_Uint64 bp = Inl e \<Longrightarrow> e = Panic SliceBoundsOutOfRange"
  by (auto simp: byteParser_Uint64_def dest!: and_then_fails slice_fails_by_panic)

lemma Float32_fails_by_panic: "byteParser_Float32 bp = Inl e \<Longrightarrow> e = Panic SliceBoundsOutOfRange"
  by (auto simp: byteParser_Float32_def dest!: and_then_fails slice_fails_by_panic)

lemma String_fails_by_panic: "byteParser_String bp = Inl e \<Longrightarrow> e = Panic SliceBoundsOutOfRange"
  by (auto simp: byteParser_String_def split: if_splits
      dest!: and_then_fails slice_fails_by_panic Int32_fails_by_panic)

lemma fill_fails_by_panic:
  assumes "\<And>bp e. body bp = Inl e \<Longrightarrow> e = Panic SliceBoundsOutOfRange"
  shows "fill n body bp = Inl e \<Longrightarrow> e = Panic SliceBoundsOutOfRange"
proof (induction n arbitrary: bp e)
  case 0
  then show ?case by simp
next
  case (Suc n)
  from Suc.prems show ?case
    by (auto dest!: and_then_fails assms Suc.IH)
qed

lemma read_multi64_val_fails_by_panic:
  "read_multi64_val bp = Inl e \<Longrightarrow> e = Panic SliceBoundsOutOfRange"
  by (auto simp: read_multi64_val_def dest!: and_then_fails Uint32_fails_by_panic)

lemma fill_Uint32_fails_by_panic:
  assumes "fill n byteParser_Uint32 bp = Inl e"
  shows "e = Panic SliceBoundsOutOfRange"
  using Uint32_fails_by_panic assms by (rule fill_fails_by_panic)

lemma fill_read_multi64_val_fails_by_panic:
  assumes "fill n read_multi64_val bp = Inl e"
  shows "e = Panic SliceBoundsOutOfRange"
  using read_multi64_val_fails_by_panic assms by (rule fill_fails_by_panic)

lemma fill_String_fails_by_panic:
  assumes "fill n byteParser_String bp = Inl e"
  shows "e = Panic SliceBoundsOutOfRange"
  using String_fails_by_panic assms by (rule fill_fails_by_panic)

lemma read_attr_fails_by_panic: "read_attr ty bp = Inl e \<Longrightarrow> e = Panic SliceBoundsOutOfRange"
  by (auto simp: read_attr_def split: if_splits
      dest!: and_then_fails Uint32_fails_by_panic Int32_fails_by_panic Uint64_fails_by_panic
        Float32_fails_by_panic String_fails_by_panic
        fill_Uint32_fails_by_panic fill_read_multi64_val_fails_by_panic)

lemma read_attrs_fails_by_panic: "read_attrs tys bp = Inl e \<Longrightarrow> e = Panic SliceBoundsOutOfRange"
proof (induction tys arbitrary: bp e)
  case Nil
  then show ?case by simp
next
  case (Cons ty tys)
  from Cons.prems show ?case
    by (auto dest!: and_then_fails read_attr_fails_by_panic Cons.IH)
qed

lemma read_match_fails_by_panic:
  "read_match id64 tys bp = Inl e \<Longrightarrow> e = Panic SliceBoundsOutOfRange"
  by (auto simp: read_match_def split: if_splits
      dest!: and_then_fails Uint32_fails_by_panic Int32_fails_by_panic Uint64_fails_by_panic
        read_attrs_fails_by_panic)

lemma read_attr_decl_fails_by_panic:
  "read_attr_decl bp = Inl e \<Longrightarrow> e = Panic SliceBoundsOutOfRange"
  by (auto simp: read_attr_decl_def
      dest!: and_then_fails Int32_fails_by_panic String_fails_by_panic)

lemma read_word_fails_by_panic: "read_word bp = Inl e \<Longrightarrow> e = Panic SliceBoundsOutOfRange"
  by (auto simp: read_word_def
      dest!: and_then_fails Int32_fails_by_panic String_fails_by_panic)

lemma fill_read_attr_decl_fails_by_panic:
  assumes "fill n read_attr_decl bp = Inl e"
  shows "e = Panic SliceBoundsOutOfRange"
  using read_attr_decl_fails_by_panic assms by (rule fill_fails_by_panic)

lemma fill_read_match_fails_by_panic:
  assumes "fill n (read_match id64 tys) bp = Inl e"
  shows "e = Panic SliceBoundsOutOfRange"
  using read_match_fails_by_panic assms by (rule fill_fails_by_panic)

lemma fill_read_word_fails_by_panic:
  assumes "fill n read_word bp = Inl e"
  shows "e = Panic SliceBoundsOutOfRange"
  using read_word_fails_by_panic assms by (rule fill_fails_by_panic)

lemma read_body_fails_by_panic: "read_body r bp = Inl e \<Longrightarrow> e = Panic SliceBoundsOutOfRange"
  unfolding read_body_def
  by (auto dest!: and_then_fails Uint32_fails_by_panic Int32_fails_by_panic
        fill_String_fails_by_panic fill_read_attr_decl_fails_by_panic
        fill_read_match_fails_by_panic fill_read_word_fails_by_panic)

lemma read_result_fails_by_panic: "read_result bp = Inl e \<Longrightarrow> e = Panic SliceBoundsOutOfRange"
  by (auto simp: read_result_def Let_def split: if_splits
      dest!: and_then_fails Int32_fails_by_panic String_fails_by_panic read_body_fails_by_panic)

lemma read_results_fails_by_panic:
  "read_results n bp = Inl e \<Longrightarrow> e = Panic SliceBoundsOutOfRange"
  unfolding read_results_def using read_result_fails_by_panic by (rule fill_fails_by_panic)

text \<open>
  C2.  The daemon answers with a body that declares five matches and holds none.
  \<open>RunQueries\<close> panics on the first read past the end: the decoding runs after
  \<open>doRequest\<close> has returned, outside its \<open>recover\<close>, and no error is returned.
\<close>

theorem RunQueries_truncated_response_panics:
  "fst (RunQueries net_truncated queued_client) = Inl (Panic SliceBoundsOutOfRange)"
  by code_simp

section \<open>The recorded configuration error\<close>

lemma err_out:
  "sc\<lparr>err := e, conn := c'\<rparr> = sc\<lparr>conn := c', err := e\<rparr>"
  "sc\<lparr>err := e, warning := w'\<rparr> = sc\<lparr>warning := w', err := e\<rparr>"
  "sc\<lparr>err := e, connerror := b'\<rparr> = sc\<lparr>connerror := b', err := e\<rparr>"
  "sc\<lparr>err := e, reqs := r'\<rparr> = sc\<lparr>reqs := r', err := e\<rparr>"
  "sc\<lparr>err := e, trace := t'\<rparr> = sc\<lparr>trace := t', err := e\<rparr>"
  by simp_all

lemma handshake_err:
  "handshake net c (sc\<lparr>err := e\<rparr>) = apsnd (err_update (\<lambda>_. e)) (handshake net c sc)"
  by (simp add: handshake_def Let_def err_out split: option.splits prod.splits sum.splits)

lemma connect_err:
  "connect net (sc\<lparr>err := e\<rparr>) = apsnd (err_update (\<lambda>_. e)) (connect net sc)"
  by (simp add: connect_def Let_def err_out handshake_err split: sum.splits)

lemma response_body_err:
  "response_body st v res (sc\<lparr>err := e\<rparr>) = apsnd (err_update (\<lambda>_. e)) (response_body st v res sc)"
  by (simp add: response_body_def Let_def err_out split: sum.splits)

lemma doRequest_err:
  "doRequest net cmd ver req (sc\<lparr>err := e\<rparr>) = apsnd (err_update (\<lambda>_. e)) (doRequest net cmd ver req sc)"
proof (cases "connect net sc")
  case (Pair r sc1)
  then show ?thesis
    by (simp add: doRequest_def connect_err Let_def err_out response_body_err
        split: option.splits prod.splits sum.splits)
qed

lemma query_head_err: "query_head q i c (sc\<lparr>err := e\<rparr>) = query_head q i c sc"
  by (simp add: query_head_def)

lemma AddQuery_err:
  "AddQuery q i c (sc\<lparr>err := e\<rparr>) = apsnd (err_update (\<lambda>_. e)) (AddQuery q i c sc)"
  by (simp add: AddQuery_def query_head_err Let_def err_out split: sum.splits)

lemma RunQueries_err:
  "RunQueries net (sc\<lparr>err := e\<rparr>) = apsnd (err_update (\<lambda>_. e)) (RunQueries net sc)"
  by (simp add: RunQueries_def doRequest_err Let_def err_out split: prod.splits sum.splits)

lemma Query_err:
  "Query net q i c (sc\<lparr>err := e\<rparr>) = apsnd (err_update (\<lambda>_. e)) (Query net q i c sc)"
proof -
  have sw: "sc\<lparr>err := e, reqs := []\<rparr> = (sc\<lparr>reqs := []\<rparr>)\<lparr>err := e\<rparr>" by simp
  have a: "AddQuery q i' c (sc\<lparr>err := e, reqs := []\<rparr>)
      = apsnd (err_update (\<lambda>_. e)) (AddQuery q i' c (sc\<lparr>reqs := []\<rparr>))" for i'
    by (simp only: sw AddQuery_err)
  obtain r1 s1 where r1: "AddQuery q (if i = [] then ''*'' else i) c (sc\<lparr>reqs := []\<rparr>) = (r1, s1)"
    by (cases "AddQuery q (if i = [] then ''*'' else i) c (sc\<lparr>reqs := []\<rparr>)")
  obtain r2 s2 where r2: "RunQueries net s1 = (r2, s2)" by (cases "RunQueries net s1")
  have b: "RunQueries net (s1\<lparr>err := e\<rparr>) = (r2, s2\<lparr>err := e\<rparr>)"
    by (simp add: RunQueries_err r2)
  show ?thesis
    unfolding Query_def Let_def a r1
    by (simp add: b r2 err_out split: sum.splits list.splits option.splits)
qed

lemma keeps_err:
  assumes "\<And>e. f (sc\<lparr>err := e\<rparr>) = apsnd (err_update (\<lambda>_. e)) (f sc)"
  shows "err (snd (f sc)) = err sc"
proof -
  have "f sc = f (sc\<lparr>err := err sc\<rparr>)" by simp
  also have "\<dots> = apsnd (err_update (\<lambda>_. err sc)) (f sc)" by (rule assms)
  finally have "snd (f sc) = (snd (f sc))\<lparr>err := err sc\<rparr>"
    by (metis snd_apsnd)
  then show ?thesis by (metis Client.select_convs(4) Client.surjective Client.update_convs(4))
qed

text \<open>
  C4, as the code has it.  A setter that rejects its input records the error in the
  client, where \<open>GetLastError\<close> reports it.  \<open>AddQuery\<close>, \<open>RunQueries\<close> and \<open>Query\<close> neither
  look at the recorded error nor clear it: they return what they would return without
  it, and \<open>GetLastError\<close> reports the same error after them.
\<close>

theorem config_error_kept_not_checked:
  "(offset < 0 \<longrightarrow> GetLastError (SetLimits offset limit maxMatches cutoff sc)
        = Some (''SetLimits > offset must not be negative: '' @ FormatInt offset))
   \<and> (umax' < umin' \<longrightarrow> GetLastError (SetFilterRange attr' umin' umax' exclude' sc) \<noteq> None)
   \<and> GetLastError (snd (AddQuery q i c sc)) = GetLastError sc
   \<and> GetLastError (snd (RunQueries net sc)) = GetLastError sc
   \<and> GetLastError (snd (Query net q i c sc)) = GetLastError sc
   \<and> fst (AddQuery q i c (sc\<lparr>err := e\<rparr>)) = fst (AddQuery q i c sc)
   \<and> fst (RunQueries net (sc\<lparr>err := e\<rparr>)) = fst (RunQueries net sc)
   \<and> fst (Query net q i c (sc\<lparr>err := e\<rparr>)) = fst (Query net q i c sc)"
proof -
  have 1: "offset < 0 \<longrightarrow> GetLastError (SetLimits offset limit maxMatches cutoff sc)
        = Some (''SetLimits > offset must not be negative: '' @ FormatInt offset)"
    by (simp add: GetLastError_def SetLimits_def)
  have 2: "umax' < umin' \<longrightarrow> GetLastError (SetFilterRange attr' umin' umax' exclude' sc) \<noteq> None"
    by (simp add: GetLastError_def SetFilterRange_def)
  have 3: "GetLastError (snd (AddQuery q i c sc)) = GetLastError sc"
    unfolding GetLastError_def by (rule keeps_err) (rule AddQuery_err)
  have 4: "GetLastError (snd (RunQueries net sc)) = GetLastError sc"
    unfolding GetLastError_def by (rule keeps_err) (rule RunQueries_err)
  have 5: "GetLastError (snd (Query net q i c sc)) = GetLastError sc"
    unfolding GetLastError_def by (rule keeps_err) (rule Query_err)
  have 6: "fst (AddQuery q i c (sc\<lparr>err := e\<rparr>)) = fst (AddQuery q i c sc)"
    by (simp add: AddQuery_err)
  have 7: "fst (RunQueries net (sc\<lparr>err := e\<rparr>)) = fst (RunQueries net sc)"
    by (simp add: RunQueries_err)
  have 8: "fst (Query net q i c (sc\<lparr>err := e\<rparr>)) = fst (Query net q i c sc)"
    by (simp add: Query_err)
  from 1 2 3 4 5 6 7 8 show ?thesis by blast
qed

theorem config_error_kept_witness:
  "GetLastError (SetLimits (-1) 20 1000 0 unix_client)
      = Some (''SetLimits > offset must not be negative: '' @ FormatInt (-1))
   \<and> GetLastError (SetFilterRange ''group_id'' 5 3 False unix_client) \<noteq> None
   \<and> GetLastError (snd (AddQuery ''test'' ''*'' [] (SetLimits (-1) 20 1000 0 unix_client)))
       = GetLastError (SetLimits (-1) 20 1000 0 unix_client)
   \<and> GetLastError (snd (RunQueries net_ok (SetLimits (-1) 20 1000 0 unix_client)))
       = GetLastError (SetLimits (-1) 20 1000 0 unix_client)
   \<and> GetLastError (snd (Query net_ok ''test'' ''*'' [] (SetLimits (-1) 20 1000 0 unix_client)))
       = GetLastError (SetLimits (-1) 20 1000 0 unix_client)
   \<and> fst (AddQuery ''test'' ''*'' [] ((SetLimits (-1) 20 1000 0 unix_client)\<lparr>err := None\<rparr>))
       = fst (AddQuery ''test'' ''*'' [] (SetLimits (-1) 20 1000 0 unix_client))
   \<and> fst (RunQueries net_ok ((SetLimits (-1) 20 1000 0 unix_client)\<lparr>err := None\<rparr>))
       = fst (RunQueries net_ok (SetLimits (-1) 20 1000 0 unix_client))
   \<and> fst (Query net_ok ''test'' ''*'' [] ((SetLimits (-1) 20 1000 0 unix_client)\<lparr>err := None\<rparr>))
       = fst (Query net_ok ''test'' ''*'' [] (SetLimits (-1) 20 1000 0 unix_client))"
proof -
  have h1: "(-1::int) < 0" by simp
  have h2: "(3::uint64) < 5" by simp
  show ?thesis
    using h1 h2
      config_error_kept_not_checked [where offset = "-1" and limit = 20 and maxMatches = 1000
          and cutoff = 0 and sc = unix_client and umax' = 3 and umin' = 5
          and attr' = "''group_id''" and exclude' = False]
      config_error_kept_not_checked [where sc = "SetLimits (-1) 20 1000 0 unix_client"
          and net = net_ok and q = "''test''" and i = "''*''" and c = "[]" and e = None]
    by blast
qed

text \<open>
  C4, as the claim has it, fails: after \<open>SetLimits\<close> has recorded its error, \<open>AddQuery\<close>
  succeeds and \<open>Query\<close> returns the daemon's result.
\<close>

theorem config_error_not_surfaced:
  "GetLastError (SetLimits (-1) 20 1000 0 unix_client)
      = Some ''SetLimits > offset must not be negative: -1''
   \<and> fst (AddQuery ''test'' ''*'' [] (SetLimits (-1) 20 1000 0 unix_client)) = Inr 0
   \<and> fst (Query net_ok ''test'' ''*'' [] (SetLimits (-1) 20 1000 0 unix_client))
       = Inr (new_Result\<lparr>Status := 0\<rparr>)"
  by code_simp

section \<open>Framing the batch\<close>

lemma foldl_append_concat: "foldl (@) a xs = a @ concat xs"
  by (induction xs arbitrary: a) simp_all

lemma response_body_trace: "trace (snd (response_body st v res sc)) = trace sc"
  by (simp add: response_body_def Let_def split: sum.splits)

lemma response_body_traceD: "response_body st v res sc = (r, sc1) \<Longrightarrow> trace sc1 = trace sc"
  using response_body_trace [of st v res sc] by simp

lemma response_body_reqs: "reqs (snd (response_body st v res sc)) = reqs sc"
  by (simp add: response_body_def Let_def split: sum.splits)

lemma doRequest_sent:
  assumes "doRequest net cmd ver req sc = (Inr res, sc1)"
  shows "trace sc1 \<noteq> [] \<and> last (trace sc1) =
     Write (PutUint16 (word_of_int cmd) @ PutUint16 (word_of_int ver)
            @ PutUint32 (of_nat (length req)) @ req)"
proof -
  obtain r0 s0 where c: "connect net sc = (r0, s0)" by (cases "connect net sc")
  show ?thesis
    using assms
    unfolding doRequest_def c Let_def
    by (auto simp: writeInt16ToBytes_def writeInt32ToBytes_def
        dest!: response_body_traceD
        split: option.splits sum.splits prod.splits if_splits)
qed

lemma doRequest_connected_trace:
  assumes "conn sc \<noteq> None"
  shows "trace (snd (doRequest net cmd ver req sc)) = trace sc @
     [Write (PutUint16 (word_of_int cmd) @ PutUint16 (word_of_int ver)
            @ PutUint32 (of_nat (length req)) @ req)]"
proof -
  have c: "connect net sc = (None, sc)" using assms by (simp add: connect_def)
  show ?thesis
    using assms unfolding doRequest_def c Let_def
    by (auto simp: writeInt16ToBytes_def writeInt32ToBytes_def response_body_trace
        split: option.splits sum.splits prod.splits if_splits)
qed

text \<open>
  C3.  With an empty queue \<open>RunQueries\<close> returns the \<open>No queries\<close> error and the client is
  as it was, its connection and its trace of dials and writes included.  With a
  queue that is not empty, a call that succeeds leaves the queue empty, and the last
  thing it wrote is the search packet: the envelope, then the marker 0, the count and
  the queued requests in order.  On a client that is connected already, that packet is
  the one thing the call writes, whatever the daemon answers.
\<close>

theorem RunQueries_frames_batch:
  "(reqs sc = [] \<longrightarrow>
      RunQueries net sc
        = (Inl (Error ''RunQueries > No queries defined, issue AddQuery() first.''), sc))
   \<and> (reqs sc \<noteq> [] \<and> RunQueries net sc = (Inr results, sc') \<longrightarrow>
        reqs sc' = [] \<and> trace sc' \<noteq> [] \<and> last (trace sc') = Write (search_packet (reqs sc)))
   \<and> (reqs sc \<noteq> [] \<and> conn sc \<noteq> None \<longrightarrow>
        trace (snd (RunQueries net sc)) = trace sc @ [Write (search_packet (reqs sc))])"
proof (intro conjI impI)
  assume "reqs sc = []"
  then show "RunQueries net sc
        = (Inl (Error ''RunQueries > No queries defined, issue AddQuery() first.''), sc)"
    by (simp add: RunQueries_def)
next
  assume a: "reqs sc \<noteq> [] \<and> RunQueries net sc = (Inr results, sc')"
  let ?body = "search_body (reqs sc)"
  have body: "foldl (@) (writeInt32ToBytes (writeInt32ToBytes [] 0) (int (length (reqs sc))))
      (reqs sc) = ?body"
    by (simp add: foldl_append_concat writeInt32ToBytes_def search_body_def)
  obtain r1 s1 where d: "doRequest net SEARCHD_COMMAND_SEARCH VER_COMMAND_SEARCH ?body sc = (r1, s1)"
    by (cases "doRequest net SEARCHD_COMMAND_SEARCH VER_COMMAND_SEARCH ?body sc")
  from a d obtain response where r1: "r1 = Inr response" and sc': "sc' = s1\<lparr>reqs := []\<rparr>"
    by (auto simp: RunQueries_def Let_def body split: sum.splits prod.splits)
  from doRequest_sent [OF d [unfolded r1]]
  have "trace s1 \<noteq> [] \<and> last (trace s1) = Write (search_packet (reqs sc))"
    by (simp add: search_packet_def sphinx_consts)
  then show "reqs sc' = []" "trace sc' \<noteq> []" "last (trace sc') = Write (search_packet (reqs sc))"
    by (simp_all add: sc')
next
  assume a: "reqs sc \<noteq> [] \<and> conn sc \<noteq> None"
  let ?body = "search_body (reqs sc)"
  have body: "foldl (@) (writeInt32ToBytes (writeInt32ToBytes [] 0) (int (length (reqs sc))))
      (reqs sc) = ?body"
    by (simp add: foldl_append_concat writeInt32ToBytes_def search_body_def)
  obtain r1 s1 where d: "doRequest net SEARCHD_COMMAND_SEARCH VER_COMMAND_SEARCH ?body sc = (r1, s1)"
    by (cases "doRequest net SEARCHD_COMMAND_SEARCH VER_COMMAND_SEARCH ?body sc")
  have t: "trace s1 = trace sc @ [Write (search_packet (reqs sc))]"
    using doRequest_connected_trace [of sc net SEARCHD_COMMAND_SEARCH VER_COMMAND_SEARCH ?body] a d
    by (simp add: search_packet_def sphinx_consts)
  show "trace (snd (RunQueries net sc)) = trace sc @ [Write (search_packet (reqs sc))]"
    using a by (simp add: RunQueries_def Let_def body d t split: sum.splits prod.splits)
qed

theorem RunQueries_frames_batch_witness:
  "RunQueries net_ok unix_client
      = (Inl (Error ''RunQueries > No queries defined, issue AddQuery() first.''), unix_client)
   \<and> reqs (snd (RunQueries net_ok queued_client)) = []
   \<and> last (trace (snd (RunQueries net_ok queued_client)))
       = Write (search_packet (reqs queued_client))
   \<and> trace (snd (RunQueries net_ok (queued_client\<lparr>conn := Some \<lparr>inbox = []\<rparr>\<rparr>)))
       = [Write (search_packet (reqs queued_client))]"
proof -
  have h1: "reqs unix_client = []" by (simp add: unix_client_def NewClient_def)
  have h2: "reqs queued_client \<noteq> []"
    by (simp add: queued_client_def AddQuery_def Let_def unix_client_def NewClient_def
        map_entries_def)
  have h3: "fst (RunQueries net_ok queued_client) = Inr [new_Result\<lparr>Status := 0\<rparr>]"
    by code_simp
  have h4: "RunQueries net_ok queued_client
      = (Inr [new_Result\<lparr>Status := 0\<rparr>], snd (RunQueries net_ok queued_client))"
    using h3 by (metis prod.collapse)
  have h5: "trace queued_client = []"
    by (simp add: queued_client_def AddQuery_def Let_def unix_client_def NewClient_def
        map_entries_def)
  have a: "RunQueries net_ok unix_client
      = (Inl (Error ''RunQueries > No queries defined, issue AddQuery() first.''), unix_client)"
    using RunQueries_frames_batch [of unix_client net_ok] h1 by blast
  have b: "reqs (snd (RunQueries net_ok queued_client)) = []
      \<and> last (trace (snd (RunQueries net_ok queued_client)))
          = Write (search_packet (reqs queued_client))"
    using RunQueries_frames_batch [of queued_client net_ok "[new_Result\<lparr>Status := 0\<rparr>]"
        "snd (RunQueries net_ok queued_client)"] h2 h4 by blast
  have c: "trace (snd (RunQueries net_ok (queued_client\<lparr>conn := Some \<lparr>inbox = []\<rparr>\<rparr>)))
       = [Write (search_packet (reqs queued_client))]"
    using RunQueries_frames_batch [of "queued_client\<lparr>conn := Some \<lparr>inbox = []\<rparr>\<rparr>" net_ok]
      h2 h5 by simp
  from a b c show ?thesis by blast
qed

section \<open>A daemon error inside a batch\<close>

lemma fill_add:
  "fill (a + b) body bp =
     and_then (fill a body bp) (\<lambda>(xs, bp1).
       and_then (fill b body bp1) (\<lambda>(ys, bp2). Inr (xs @ ys, bp2)))"
proof (induction a arbitrary: bp)
  case 0
  show ?case by (cases "fill b body bp") auto
next
  case (Suc a)
  show ?case
  proof (cases "body bp")
    case (Inl e)
    then show ?thesis by simp
  next
    case (Inr r)
    obtain x bp1 where r: "r = (x, bp1)" by (cases r)
    show ?thesis
    proof (cases "fill a body bp1")
      case (Inl e)
      then show ?thesis using Inr r by (simp add: Suc)
    next
      case (Inr r2)
      obtain xs bp2 where r2: "r2 = (xs, bp2)" by (cases r2)
      show ?thesis using \<open>body bp = Inr r\<close> r Inr r2
        by (cases "fill b body bp2") (auto simp: Suc)
    qed
  qed
qed

lemma string_of_bytes_of [simp]: "string_of (bytes_of s) = s"
  by (induction s) (simp_all add: string_of_def bytes_of_def unat_of_nat)

lemma length_bytes_of [simp]: "length (bytes_of s) = length s"
  by (simp add: bytes_of_def)

lemma String_at:
  assumes d: "drop (p bp) (stream bp) = PutUint32 (of_nat (length s)) @ bytes_of s @ rest"
    and len: "length s < 2 ^ 32"
  shows "byteParser_String bp = Inr (s, bp\<lparr>p := p bp + 4 + length s\<rparr>)"
proof -
  let ?bp1 = "bp\<lparr>p := p bp + 4\<rparr>"
  have u: "uint (of_nat (length s) :: uint32) = int (length s)"
    using len by (simp add: uint_nat unat_of_nat)
  have r: "byteParser_Int32 bp = Inr (int (length s), ?bp1)"
    using Int32_at [OF d] by (simp add: u)
  have d1: "drop (p ?bp1) (stream ?bp1) = bytes_of s @ rest"
    using rest_after_Uint32 [OF d] .
  show ?thesis
  proof (cases "s = []")
    case True
    then show ?thesis by (simp add: byteParser_String_def r)
  next
    case False
    have "slice (stream ?bp1) (p ?bp1) (p ?bp1 + length (bytes_of s)) = Inr (bytes_of s)"
      using d1 by (rule slice_prefix) (use False in \<open>simp add: bytes_of_def\<close>)
    then show ?thesis using False by (simp add: byteParser_String_def r ac_simps)
  qed
qed

text \<open>
  C7.  In a batch, let the first \<open>a\<close> results decode, let the next one stand on the wire
  as a status ERROR or RETRY followed by a length-prefixed message, and let \<open>b\<close> more
  results decode from the byte after that message.  Then the batch of \<open>a + 1 + b\<close>
  decodes: the result in the middle has the status and the message as its error and
  nothing else, no byte after the message was read for it, and the results before
  and after it are the ones their own bytes give.
\<close>

theorem read_results_error_is_local:
  assumes first: "read_results a bp = Inr (rs1, bp1)"
    and layout: "drop (p bp1) (stream bp1)
        = PutUint32 st @ PutUint32 (of_nat (length msg)) @ bytes_of msg @ rest"
    and status: "uint st = SEARCHD_ERROR \<or> uint st = SEARCHD_RETRY"
    and len: "length msg < 2 ^ 32"
    and others: "read_results b (bp1\<lparr>p := p bp1 + 8 + length msg\<rparr>) = Inr (rs2, bp2)"
  shows "read_results (a + (1 + b)) bp
     = Inr (rs1 @ [new_Result\<lparr>Status := uint st, Error_r := Some msg\<rparr>] @ rs2, bp2)"
proof -
  let ?bpa = "bp1\<lparr>p := p bp1 + 4\<rparr>"
  let ?bpb = "bp1\<lparr>p := p bp1 + 8 + length msg\<rparr>"
  have s1: "byteParser_Int32 bp1 = Inr (uint st, ?bpa)" using layout by (rule Int32_at)
  have d1: "drop (p ?bpa) (stream ?bpa) = PutUint32 (of_nat (length msg)) @ bytes_of msg @ rest"
    using rest_after_Uint32 [OF layout] .
  have s2: "byteParser_String ?bpa = Inr (msg, ?bpb)"
    using String_at [OF d1 len] by (simp add: ac_simps)
  have one: "read_result bp1 = Inr (new_Result\<lparr>Status := uint st, Error_r := Some msg\<rparr>, ?bpb)"
    using status by (auto simp: read_result_def s1 s2 Let_def sphinx_consts)
  have tail: "fill (1 + b) read_result bp1
      = Inr (new_Result\<lparr>Status := uint st, Error_r := Some msg\<rparr> # rs2, bp2)"
    using others by (simp add: read_results_def one)
  have first': "fill a read_result bp = Inr (rs1, bp1)"
    using first by (simp only: read_results_def)
  show ?thesis
    unfolding read_results_def fill_add [of a "1 + b"]
    by (simp only: first' tail and_then_Inr prod.case append.simps)
qed


theorem read_results_error_is_local_witness:
  "read_results 3 \<lparr>stream = batch_wire, p = 0\<rparr>
     = Inr ([new_Result\<lparr>Status := 0\<rparr>,
             new_Result\<lparr>Status := 1, Error_r := Some ''no such index''\<rparr>,
             new_Result\<lparr>Status := 0\<rparr>],
            \<lparr>stream = batch_wire, p = 93\<rparr>)"
proof -
  let ?bp = "\<lparr>stream = batch_wire, p = 0\<rparr>"
  let ?bp1 = "\<lparr>stream = batch_wire, p = 36\<rparr>"
  let ?bp2 = "\<lparr>stream = batch_wire, p = 93\<rparr>"
  have first: "read_results 1 ?bp = Inr ([new_Result\<lparr>Status := 0\<rparr>], ?bp1)"
    by code_simp
  have layout: "drop (p ?bp1) (stream ?bp1)
      = PutUint32 1 @ PutUint32 (of_nat (length ''no such index'')) @ bytes_of ''no such index''
          @ empty_result_wire"
    by code_simp
  have status: "uint (1 :: uint32) = SEARCHD_ERROR \<or> uint (1 :: uint32) = SEARCHD_RETRY"
    by (simp add: sphinx_consts)
  have len: "length ''no such index'' < 2 ^ 32" by simp
  have others: "read_results 1 (?bp1\<lparr>p := p ?bp1 + 8 + length ''no such index''\<rparr>)
      = Inr ([new_Result\<lparr>Status := 0\<rparr>], ?bp2)"
    by code_simp
  have n: "(3::nat) = 1 + (1 + 1)" by simp
  show ?thesis
    unfolding n
    using read_results_error_is_local [OF first layout status len others] by simp
qed

section \<open>Field literals\<close>




































end
